theory Spec2Isabelle
  imports Complex_Main
begin

section \<open>Python values and exceptions\<close>

text \<open>
  The exceptions the modelled code can raise.  \<open>ArithmeticError\<close> carries its message;
  \<open>ZeroDivisionError\<close> is what Python's \<open>/\<close> raises on a zero divisor.

  Python floats and Qt's \<open>qreal\<close> are modelled as \<^typ>\<open>real\<close> with exact arithmetic (no
  rounding).  Python ints are modelled as \<^typ>\<open>int\<close>; Qt's 32-bit \<open>int\<close> is modelled as
  \<^typ>\<open>int\<close> with its range checked where Qt computes with it.
\<close>

datatype error =
    ArithmeticError string
  | ZeroDivisionError
  | IndexError
  | KeyError string
  | ValueError
  | TypeError
  | AttributeError

text \<open>Python's true division \<open>a / b\<close> on numbers: raises on a zero divisor.\<close>

definition py_truediv :: "real \<Rightarrow> real \<Rightarrow> error + real" where
  "py_truediv a b = (if b = 0 then Inl ZeroDivisionError else Inr (a / b))"

text \<open>
  Where the code asks whether a value is finite, the model follows overflow.  A
  \<open>pyfloat\<close> is a finite value or a non-finite one (an infinity or NaN).  \<open>max_double\<close> is
  the largest double, \<open>(2 - 2^-52) * 2^1023\<close>; \<open>to_float x\<close> is the float an exact result
  \<open>x\<close> becomes: non-finite beyond \<open>max_double\<close>.  The product and the difference of
  floats are non-finite as soon as an operand is (the product of an infinity with zero and
  the difference of two infinities are NaN).  \<open>isfinite\<close> is \<open>math.isfinite\<close>.
\<close>

definition max_double :: real where
  "max_double = 2 ^ 1024 - 2 ^ 971"

datatype pyfloat = Finite real | NonFinite

definition to_float :: "real \<Rightarrow> pyfloat" where
  "to_float x = (if \<bar>x\<bar> \<le> max_double then Finite x else NonFinite)"

definition float_mul :: "pyfloat \<Rightarrow> pyfloat \<Rightarrow> pyfloat" where
  "float_mul u v =
     (case u of
        Finite x \<Rightarrow> (case v of Finite y \<Rightarrow> to_float (x * y) | NonFinite \<Rightarrow> NonFinite)
      | NonFinite \<Rightarrow> NonFinite)"

definition float_sub :: "pyfloat \<Rightarrow> pyfloat \<Rightarrow> pyfloat" where
  "float_sub u v =
     (case u of
        Finite x \<Rightarrow> (case v of Finite y \<Rightarrow> to_float (x - y) | NonFinite \<Rightarrow> NonFinite)
      | NonFinite \<Rightarrow> NonFinite)"

definition isfinite :: "pyfloat \<Rightarrow> bool" where
  "isfinite v = (case v of Finite x \<Rightarrow> True | NonFinite \<Rightarrow> False)"

text \<open>
  The value of a finite float, for exact arithmetic to go on with; the model reads it only
  where the float is known to be finite (it is \<open>0\<close> elsewhere).
\<close>

definition float_value :: "pyfloat \<Rightarrow> real" where
  "float_value v = (case v of Finite x \<Rightarrow> x | NonFinite \<Rightarrow> 0)"

section \<open>Python values\<close>

text \<open>
  The Python values that occur in field lists, in the data attached to scene items and in
  the project dictionary.  \<open>PyObject\<close> stands for an object of a class defined outside the
  modelled files (the results store).
\<close>

record QPointF =
  xp :: real
  yp :: real

text \<open>
  Modelled from the spec: the enumerations \<open>MarkerTypes\<close> and \<open>ItemDataTypes\<close> of
  \<open>cgt.util.markers\<close> are not among the files; these are the members the modelled code names.
\<close>

datatype MarkerTypes = POINT | LINE

datatype ItemDataTypes = ITEM_TYPE | FRAME_NUMBER | REGION_INDEX | CROSS_CENTRE

datatype 'o pyval =
    PyNone
  | PyBool bool
  | PyInt int
  | PyFloat real
  | PyStr string
  | PyPoint QPointF
  | PyMarker MarkerTypes
  | PyObject 'o

text \<open>\<open>xs[i]\<close> for a non-negative index: \<open>IndexError\<close> out of range.\<close>

definition py_index :: "'a list \<Rightarrow> nat \<Rightarrow> error + 'a" where
  "py_index xs i = (if i < length xs then Inr (xs ! i) else Inl IndexError)"

text \<open>
  \<open>float(v)\<close> and \<open>int(v)\<close>.  How Python reads a number from a string is a parameter
  (\<open>None\<close> where Python raises \<open>ValueError\<close>).  \<open>int\<close> truncates a float towards zero.
\<close>

definition py_float :: "(string \<Rightarrow> real option) \<Rightarrow> 'o pyval \<Rightarrow> error + real" where
  "py_float float_of_str v =
     (case v of
        PyFloat f \<Rightarrow> Inr f
      | PyInt i \<Rightarrow> Inr (of_int i)
      | PyBool b \<Rightarrow> Inr (if b then 1 else 0)
      | PyStr s \<Rightarrow> (case float_of_str s of None \<Rightarrow> Inl ValueError | Some f \<Rightarrow> Inr f)
      | _ \<Rightarrow> Inl TypeError)"

definition py_int :: "(string \<Rightarrow> int option) \<Rightarrow> 'o pyval \<Rightarrow> error + int" where
  "py_int int_of_str v =
     (case v of
        PyInt i \<Rightarrow> Inr i
      | PyFloat f \<Rightarrow> Inr (if 0 \<le> f then \<lfloor>f\<rfloor> else \<lceil>f\<rceil>)
      | PyBool b \<Rightarrow> Inr (if b then 1 else 0)
      | PyStr s \<Rightarrow> (case int_of_str s of None \<Rightarrow> Inl ValueError | Some i \<Rightarrow> Inr i)
      | _ \<Rightarrow> Inl TypeError)"

text \<open>Sequencing of computations that may raise.\<close>

definition and_then :: "error + 'a \<Rightarrow> ('a \<Rightarrow> error + 'b) \<Rightarrow> error + 'b" where
  "and_then r f = (case r of Inl e \<Rightarrow> Inl e | Inr v \<Rightarrow> f v)"

section \<open>Qt value types\<close>

text \<open>
  \<open>QPointF\<close>, \<open>QLineF\<close>, \<open>QRectF\<close>, \<open>QPoint\<close> and \<open>QRect\<close> with the operations the code calls,
  as Qt 5 documents and implements them.  A \<open>QRect\<close> stores its corners \<open>(x1, y1)\<close> and
  \<open>(x2, y2)\<close>, with \<open>width = x2 - x1 + 1\<close>.
\<close>

definition qpointf_add :: "QPointF \<Rightarrow> QPointF \<Rightarrow> QPointF" where
  "qpointf_add p q = \<lparr>xp = xp p + xp q, yp = yp p + yp q\<rparr>"

definition qpointf_sub :: "QPointF \<Rightarrow> QPointF \<Rightarrow> QPointF" where
  "qpointf_sub p q = \<lparr>xp = xp p - xp q, yp = yp p - yp q\<rparr>"

definition qpointf_mul :: "QPointF \<Rightarrow> real \<Rightarrow> QPointF" where
  "qpointf_mul p c = \<lparr>xp = xp p * c, yp = yp p * c\<rparr>"

record QLineF =
  pt1 :: QPointF
  pt2 :: QPointF







record QRectF =
  rect_xp :: real
  rect_yp :: real
  rect_w :: real
  rect_h :: real
















section \<open>Rectangles\<close>

definition make_positive_rect :: "QPointF \<Rightarrow> QPointF \<Rightarrow> QRectF" where
  "make_positive_rect corner opposite_corner =
     (let width = \<bar>xp opposite_corner - xp corner\<bar>;
          height = \<bar>yp opposite_corner - yp corner\<bar>;
          top_left_x = min (xp opposite_corner) (xp corner);
          top_left_y = min (yp opposite_corner) (yp corner)
      in \<lparr>rect_xp = top_left_x, rect_yp = top_left_y, rect_w = width, rect_h = height\<rparr>)"

section \<open>Line intersection and arrow heads\<close>

text \<open>
  \<open>cgt_intersection\<close>.  The differences \<open>a\<close>, \<open>b\<close> and \<open>c\<close> are kept exact; the denominator
  is computed as a float from the coordinates of \<open>a\<close> and \<open>b\<close> as floats, so that it is
  non-finite when a difference, a product or the denominator itself overflows.  Past the
  test the denominator is finite, and the computation goes on with its value in exact
  arithmetic.
\<close>

definition cgt_intersection :: "QLineF \<Rightarrow> QLineF \<Rightarrow> error + (QPointF \<times> QLineF option)" where
  "cgt_intersection centred_normal clone =
     (let a = qpointf_sub (pt2 centred_normal) (pt1 centred_normal);
          b = qpointf_sub (pt1 clone) (pt2 clone);
          c = qpointf_sub (pt1 centred_normal) (pt1 clone);
          denominator =
            float_sub (float_mul (to_float (yp a)) (to_float (xp b)))
                      (float_mul (to_float (xp a)) (to_float (yp b)))
      in if denominator = Finite 0 \<or> \<not> isfinite denominator
         then Inl (ArithmeticError ''Clone line is parallel to parent'')
         else and_then (py_truediv 1.0 (float_value denominator)) (\<lambda>reciprocal.
           let na = (yp b * xp c - xp b * yp c) * reciprocal;
               intersection = qpointf_add (pt1 centred_normal) (qpointf_mul a na);
               nb = (xp a * yp c - yp a * xp c) * reciprocal;
               extension =
                 (if nb < 0.0 then Some \<lparr>pt1 = pt1 clone, pt2 = intersection\<rparr>
                  else if nb > 1.0 then Some \<lparr>pt1 = pt2 clone, pt2 = intersection\<rparr>
                  else None)
           in Inr (intersection, extension)))"










section \<open>Differences and velocities\<close>

text \<open>
  \<open>ImageLineDifference\<close> is defined outside the modelled files; the code reads its attribute
  \<open>average\<close> only.
\<close>

record ImageLineDifference =
  average :: real

definition difference_to_distance :: "ImageLineDifference \<Rightarrow> real \<Rightarrow> real" where
  "difference_to_distance difference scale = average difference * scale"

text \<open>
  The body of the \<open>for frames, diff in diff_list\<close> loop of
  \<open>difference_list_to_velocities\<close>; the first argument is the list \<open>velocities\<close> built so far.
\<close>

fun velocities_loop ::
  "real list \<Rightarrow> (int \<times> ImageLineDifference) list \<Rightarrow> real \<Rightarrow> int \<Rightarrow> error + real list" where
  "velocities_loop velocities [] scale fps = Inr velocities"
| "velocities_loop velocities ((frames, diff) # rest) scale fps =
     (let distance = difference_to_distance diff scale in
      case py_truediv (of_int frames) (of_int fps) of
        Inl e \<Rightarrow> Inl e
      | Inr time \<Rightarrow>
         (case py_truediv distance time of
            Inl e \<Rightarrow> Inl e
          | Inr velocity \<Rightarrow>
              if velocity < 0.0
              then velocities_loop (velocities @ [- velocity]) rest scale fps
              else velocities_loop (velocities @ [velocity]) rest scale fps))"

definition difference_list_to_velocities ::
  "(int \<times> ImageLineDifference) list \<Rightarrow> real \<Rightarrow> int \<Rightarrow> error + real list" where
  "difference_list_to_velocities diff_list scale fps = velocities_loop [] diff_list scale fps"

text \<open>The magnitude the documentation promises for one entry.\<close>

definition velocity_magnitude :: "real \<Rightarrow> int \<Rightarrow> int \<times> ImageLineDifference \<Rightarrow> real" where
  "velocity_magnitude scale fps entry =
     \<bar>average (snd entry) * scale / (of_int (fst entry) / of_int fps)\<bar>"




section \<open>Scene items\<close>

text \<open>
  Qt's graphics items, reduced to the state the modelled functions read and write: the
  position, the data attached with \<open>setData\<close> (absent keys read as \<open>None\<close>), the z value, the
  pen (\<open>None\<close> until \<open>setPen\<close>) and the shape.  The type of pens is a parameter.
\<close>

datatype path_element = MoveTo QPointF | LineTo QPointF

record 'o QGraphicsItem =
  item_pos :: QPointF
  item_data :: "ItemDataTypes \<Rightarrow> 'o pyval"
  item_zValue :: real

record ('o, 'pen) QAbstractGraphicsShapeItem = "'o QGraphicsItem" +
  item_pen :: "'pen option"

record ('o, 'pen) QGraphicsPathItem = "('o, 'pen) QAbstractGraphicsShapeItem" +
  item_path :: "path_element list"


record ('o, 'pen) QGraphicsLineItem = "'o QGraphicsItem" +
  line_pen :: "'pen option"
  item_line :: QLineF

definition QGraphicsPathItem_new :: "path_element list \<Rightarrow> ('o, 'pen) QGraphicsPathItem" where
  "QGraphicsPathItem_new path =
     \<lparr>item_pos = \<lparr>xp = 0, yp = 0\<rparr>, item_data = (\<lambda>key. PyNone), item_zValue = 0,
      item_pen = None, item_path = path\<rparr>"

definition QGraphicsLineItem_new ::
  "real \<Rightarrow> real \<Rightarrow> real \<Rightarrow> real \<Rightarrow> ('o, 'pen) QGraphicsLineItem" where
  "QGraphicsLineItem_new ax1 ay1 ax2 ay2 =
     \<lparr>item_pos = \<lparr>xp = 0, yp = 0\<rparr>, item_data = (\<lambda>key. PyNone), item_zValue = 0,
      line_pen = None,
      item_line = \<lparr>pt1 = \<lparr>xp = ax1, yp = ay1\<rparr>, pt2 = \<lparr>xp = ax2, yp = ay2\<rparr>\<rparr>\<rparr>"

definition setData ::
  "('o, 'z) QGraphicsItem_scheme \<Rightarrow> ItemDataTypes \<Rightarrow> 'o pyval \<Rightarrow> ('o, 'z) QGraphicsItem_scheme" where
  "setData item key v = item\<lparr>item_data := (item_data item)(key := v)\<rparr>"

definition make_cross_path :: "QPointF \<Rightarrow> path_element list" where
  "make_cross_path point =
     (let up_right = \<lparr>xp = 10.0, yp = 10.0\<rparr>;
          up_left = \<lparr>xp = - 10.0, yp = 10.0\<rparr>
      in [MoveTo point, LineTo (qpointf_add point up_right),
          MoveTo point, LineTo (qpointf_add point up_left),
          MoveTo point, LineTo (qpointf_sub point up_right),
          MoveTo point, LineTo (qpointf_sub point up_left)])"

definition g_point_to_tuple :: "('o, 'pen) QGraphicsPathItem \<Rightarrow> error + 'o pyval list" where
  "g_point_to_tuple point =
     (case item_data point CROSS_CENTRE of
        PyPoint centre \<Rightarrow>
          (let position = item_pos point in
           Inr [PyFloat (xp centre), PyFloat (yp centre),
                PyFloat (xp position), PyFloat (yp position),
                item_data point FRAME_NUMBER, item_data point REGION_INDEX])
      | _ \<Rightarrow> Inl AttributeError)"

definition g_line_to_tuple :: "('o, 'pen) QGraphicsLineItem \<Rightarrow> 'o pyval list" where
  "g_line_to_tuple line =
     [PyFloat (xp (pt1 (item_line line))), PyFloat (yp (pt1 (item_line line))),
      PyFloat (xp (pt2 (item_line line))), PyFloat (yp (pt2 (item_line line))),
      PyFloat (xp (item_pos line)), PyFloat (yp (item_pos line)),
      item_data line FRAME_NUMBER, item_data line REGION_INDEX]"

definition list_to_g_point ::
  "(string \<Rightarrow> real option) \<Rightarrow> (string \<Rightarrow> int option) \<Rightarrow> 'o pyval list \<Rightarrow> 'pen
     \<Rightarrow> error + ('o, 'pen) QGraphicsPathItem" where
  "list_to_g_point float_of_str int_of_str point pen =
     and_then (and_then (py_index point 1) (py_float float_of_str)) (\<lambda>centre_x.
     and_then (and_then (py_index point 2) (py_float float_of_str)) (\<lambda>centre_y.
     and_then (and_then (py_index point 3) (py_float float_of_str)) (\<lambda>position_x.
     and_then (and_then (py_index point 4) (py_float float_of_str)) (\<lambda>position_y.
     and_then (and_then (py_index point 5) (py_int int_of_str)) (\<lambda>frame.
     and_then (and_then (py_index point 6) (py_int int_of_str)) (\<lambda>region.
       let centre = \<lparr>xp = centre_x, yp = centre_y\<rparr>;
           position = \<lparr>xp = position_x, yp = position_y\<rparr>;
           path = make_cross_path centre;
           item = QGraphicsPathItem_new path;
           item = item\<lparr>item_pos := position\<rparr>;
           item = setData item ITEM_TYPE (PyMarker POINT);
           item = setData item FRAME_NUMBER (PyInt frame);
           item = setData item REGION_INDEX (PyInt region);
           item = setData item CROSS_CENTRE (PyPoint centre);
           item = item\<lparr>item_pen := Some pen\<rparr>;
           item = item\<lparr>item_zValue := 1.0\<rparr>
       in Inr item))))))"

definition list_to_g_line ::
  "(string \<Rightarrow> real option) \<Rightarrow> (string \<Rightarrow> int option) \<Rightarrow> 'o pyval list \<Rightarrow> 'pen
     \<Rightarrow> error + ('o, 'pen) QGraphicsLineItem" where
  "list_to_g_line float_of_str int_of_str line pen =
     and_then (and_then (py_index line 1) (py_float float_of_str)) (\<lambda>ax1.
     and_then (and_then (py_index line 2) (py_float float_of_str)) (\<lambda>ay1.
     and_then (and_then (py_index line 3) (py_float float_of_str)) (\<lambda>ax2.
     and_then (and_then (py_index line 4) (py_float float_of_str)) (\<lambda>ay2.
     and_then (and_then (py_index line 5) (py_float float_of_str)) (\<lambda>position_x.
     and_then (and_then (py_index line 6) (py_float float_of_str)) (\<lambda>position_y.
     and_then (and_then (py_index line 7) (py_int int_of_str)) (\<lambda>frame.
     and_then (and_then (py_index line 8) (py_int int_of_str)) (\<lambda>region.
       let position = \<lparr>xp = position_x, yp = position_y\<rparr>;
           item = QGraphicsLineItem_new ax1 ay1 ax2 ay2;
           item = item\<lparr>item_pos := position\<rparr>;
           item = setData item ITEM_TYPE (PyMarker LINE);
           item = setData item FRAME_NUMBER (PyInt frame);
           item = setData item REGION_INDEX (PyInt region);
           item = item\<lparr>line_pen := Some pen\<rparr>;
           item = item\<lparr>item_zValue := 1.0\<rparr>
       in Inr item))))))))"

text \<open>The two conversions one after the other: from a field list to an item and back.\<close>

definition point_round_trip ::
  "(string \<Rightarrow> real option) \<Rightarrow> (string \<Rightarrow> int option) \<Rightarrow> 'o pyval list \<Rightarrow> 'pen
     \<Rightarrow> error + 'o pyval list" where
  "point_round_trip float_of_str int_of_str point pen =
     and_then (list_to_g_point float_of_str int_of_str point pen) g_point_to_tuple"

definition line_round_trip ::
  "(string \<Rightarrow> real option) \<Rightarrow> (string \<Rightarrow> int option) \<Rightarrow> 'o pyval list \<Rightarrow> 'pen
     \<Rightarrow> error + 'o pyval list" where
  "line_round_trip float_of_str int_of_str line pen =
     and_then (list_to_g_line float_of_str int_of_str line pen) (\<lambda>item. Inr (g_line_to_tuple item))"






section \<open>The project dictionary\<close>

text \<open>
  \<open>CGTProject\<close> is a \<open>dict\<close> with the extra attribute \<open>_changed\<close>.  The results store kept under
  the key \<open>results\<close> is of a class defined outside the modelled files: its methods
  \<open>has_been_changed\<close> and \<open>reset_changed\<close> are parameters (\<open>results_changed\<close>,
  \<open>results_reset\<close>) wherever the project calls them.
\<close>

record 'o CGTProject =
  items :: "string \<rightharpoonup> 'o pyval"
  changed :: bool

definition getitem :: "'o CGTProject \<Rightarrow> string \<Rightarrow> error + 'o pyval" where
  "getitem self item = (case items self item of None \<Rightarrow> Inl (KeyError item) | Some v \<Rightarrow> Inr v)"

definition setitem :: "'o CGTProject \<Rightarrow> string \<Rightarrow> 'o pyval \<Rightarrow> 'o CGTProject" where
  "setitem self item v = (self\<lparr>items := (items self)(item \<mapsto> v)\<rparr>)\<lparr>changed := True\<rparr>"

text \<open>The assignments of \<open>__init__\<close>, in order.\<close>

definition init_assignments :: "(string \<times> 'o pyval) list" where
  "init_assignments =
     [(''prog'', PyNone), (''description'', PyNone), (''start_datetime'', PyNone),
      (''host'', PyNone), (''ip_address'', PyNone), (''operating_system'', PyNone),
      (''enhanced_video'', PyNone), (''raw_video'', PyNone), (''proj_name'', PyNone),
      (''proj_full_path'', PyNone), (''notes'', PyNone), (''results'', PyNone),
      (''enhanced_video_path'', PyNone), (''enhanced_video_no_path'', PyNone),
      (''enhanced_video_no_extension'', PyNone), (''raw_video_path'', PyNone),
      (''raw_video_no_path'', PyNone), (''raw_video_no_extension'', PyNone),
      (''stats_from_enhanced'', PyBool False), (''start_user'', PyNone),
      (''frame_rate'', PyNone), (''resolution'', PyNone), (''resolution_units'', PyNone),
      (''latest_report'', PyNone)]"

definition CGTProject_init :: "unit \<Rightarrow> 'o CGTProject" where
  "CGTProject_init u =
     foldl (\<lambda>self (item, v). setitem self item v)
       \<lparr>items = Map.empty, changed = False\<rparr> init_assignments"

text \<open>
  \<open>init_new_project\<close>: the values of \<open>timestamp()\<close>, \<open>find_hostname_and_ip()\<close> and
  \<open>getpass.getuser()\<close> are arguments.
\<close>

definition init_new_project ::
  "'o pyval \<Rightarrow> 'o pyval \<times> 'o pyval \<times> 'o pyval \<Rightarrow> 'o pyval \<Rightarrow> 'o CGTProject \<Rightarrow> 'o CGTProject" where
  "init_new_project timestamp hostname_and_ip user self =
     (let prog = PyStr ''CGT'';
          description =
            PyStr ''Semi-automatically tracks the growth of crystals from X-ray videos.'';
          self = setitem self ''prog'' prog;
          self = setitem self ''description'' description;
          self = setitem self ''start_datetime'' timestamp;
          self = setitem self ''host'' (fst hostname_and_ip);
          self = setitem self ''ip_address'' (fst (snd hostname_and_ip));
          self = setitem self ''operating_system'' (snd (snd hostname_and_ip));
          self = setitem self ''start_user'' user
      in self)"

text \<open>
  The methods that can raise return the project as the exception leaves it, with the
  exception (or \<open>None\<close>).
\<close>

definition ensure_numeric ::
  "(string \<Rightarrow> real option) \<Rightarrow> 'o CGTProject \<Rightarrow> 'o CGTProject \<times> error option" where
  "ensure_numeric float_of_str self =
     (case and_then (getitem self ''resolution'') (py_float float_of_str) of
        Inl e \<Rightarrow> (self, Some e)
      | Inr resolution \<Rightarrow>
          (let self = setitem self ''resolution'' (PyFloat resolution) in
           case and_then (getitem self ''frame_rate'') (py_float float_of_str) of
             Inl e \<Rightarrow> (self, Some e)
           | Inr frame_rate \<Rightarrow> (setitem self ''frame_rate'' (PyFloat frame_rate), None)))"

definition set_changed :: "'o CGTProject \<Rightarrow> 'o CGTProject" where
  "set_changed self = self\<lparr>changed := True\<rparr>"

definition reset_changed :: "('o \<Rightarrow> 'o) \<Rightarrow> 'o CGTProject \<Rightarrow> 'o CGTProject \<times> error option" where
  "reset_changed results_reset self =
     (let self = self\<lparr>changed := False\<rparr> in
      case getitem self ''results'' of
        Inl e \<Rightarrow> (self, Some e)
      | Inr PyNone \<Rightarrow> (self, None)
      | Inr (PyObject r) \<Rightarrow>
          (self\<lparr>items := (items self)(''results'' \<mapsto> PyObject (results_reset r))\<rparr>, None)
      | Inr _ \<Rightarrow> (self, Some AttributeError))"

definition has_been_changed :: "('o \<Rightarrow> bool) \<Rightarrow> 'o CGTProject \<Rightarrow> error + bool" where
  "has_been_changed results_changed self =
     (case getitem self ''results'' of
        Inl e \<Rightarrow> Inl e
      | Inr PyNone \<Rightarrow> Inr (changed self)
      | Inr v \<Rightarrow>
          if changed self then Inr True
          else (case v of
                  PyObject r \<Rightarrow> Inr (results_changed r)
                | _ \<Rightarrow> Inl AttributeError))"

text \<open>The methods of the class that change a project, and a call of one of them.\<close>

datatype 'o method_call =
    SetItem string "'o pyval"
  | SetChanged
  | ResetChanged
  | InitNewProject "'o pyval" "'o pyval \<times> 'o pyval \<times> 'o pyval" "'o pyval"
  | EnsureNumeric

fun call ::
  "(string \<Rightarrow> real option) \<Rightarrow> ('o \<Rightarrow> 'o) \<Rightarrow> 'o method_call \<Rightarrow> 'o CGTProject
     \<Rightarrow> 'o CGTProject \<times> error option" where
  "call float_of_str results_reset (SetItem item v) self = (setitem self item v, None)"
| "call float_of_str results_reset SetChanged self = (set_changed self, None)"
| "call float_of_str results_reset ResetChanged self = reset_changed results_reset self"
| "call float_of_str results_reset (InitNewProject timestamp hostname_and_ip user) self =
     (init_new_project timestamp hostname_and_ip user self, None)"
| "call float_of_str results_reset EnsureNumeric self = ensure_numeric float_of_str self"

section \<open>Properties of the velocity conversion\<close>

lemma velocities_loop_ok:
  assumes "fps \<noteq> 0" and "\<forall>entry \<in> set diff_list. fst entry \<noteq> 0"
  shows "velocities_loop acc diff_list scale fps
           = Inr (acc @ map (velocity_magnitude scale fps) diff_list)"
  using assms(2)
proof (induction diff_list arbitrary: acc)
  case Nil
  show ?case by simp
next
  case (Cons entry rest)
  obtain frames d where entry: "entry = (frames, d)" by (cases entry)
  from Cons.prems entry have fr: "frames \<noteq> 0" by simp
  from Cons.prems have rest: "\<forall>e \<in> set rest. fst e \<noteq> 0" by simp
  have time: "(of_int frames :: real) / of_int fps \<noteq> 0"
    using fr assms(1) by simp
  show ?case
    using time Cons.IH [OF rest]
    by (simp add: entry py_truediv_def difference_to_distance_def velocity_magnitude_def
        assms(1) abs_if)
qed

lemma velocities_loop_zero:
  assumes "(frames, d) \<in> set diff_list" and "fps = 0 \<or> frames = 0"
  shows "velocities_loop acc diff_list scale fps = Inl ZeroDivisionError"
  using assms(1)
proof (induction diff_list arbitrary: acc)
  case Nil
  then show ?case by simp
next
  case (Cons entry rest)
  obtain frames' d' where entry: "entry = (frames', d')" by (cases entry)
  show ?case
  proof (cases "fps = 0 \<or> frames' = 0")
    case True
    then show ?thesis by (auto simp add: entry py_truediv_def)
  next
    case False
    with assms(2) Cons.prems entry have "(frames, d) \<in> set rest" by auto
    from Cons.IH [OF this] show ?thesis
      by (simp add: entry py_truediv_def Let_def)
  qed
qed

text \<open>
  C5: with a non-zero frame rate and non-zero frame intervals the conversion succeeds and
  every reported velocity is the non-negative magnitude
  \<open>|average * scale / (frame_interval / fps)|\<close>; for \<open>average = -4\<close>, \<open>scale = 2\<close>,
  \<open>frames = 5\<close>, \<open>fps = 10\<close> the reported velocity is 16.
\<close>

theorem velocities_are_magnitudes:
  "(fps \<noteq> 0 \<and> (\<forall>entry \<in> set diff_list. fst entry \<noteq> 0) \<longrightarrow>
      difference_list_to_velocities diff_list scale fps
        = Inr (map (velocity_magnitude scale fps) diff_list)
      \<and> (\<forall>v \<in> set (map (velocity_magnitude scale fps) diff_list). 0 \<le> v))
   \<and> difference_list_to_velocities [(5, \<lparr>average = - 4\<rparr>)] 2 10 = Inr [16]"
proof (intro conjI impI)
  assume h: "fps \<noteq> 0 \<and> (\<forall>entry \<in> set diff_list. fst entry \<noteq> 0)"
  then show "difference_list_to_velocities diff_list scale fps
        = Inr (map (velocity_magnitude scale fps) diff_list)"
    using velocities_loop_ok [of fps diff_list "[]" scale]
    by (simp add: difference_list_to_velocities_def)
  show "\<forall>v \<in> set (map (velocity_magnitude scale fps) diff_list). 0 \<le> v"
    by (auto simp add: velocity_magnitude_def)
next
  show "difference_list_to_velocities [(5, \<lparr>average = - 4\<rparr>)] 2 10 = Inr [16]"
    by (simp add: difference_list_to_velocities_def py_truediv_def difference_to_distance_def)
qed

theorem velocities_are_magnitudes_witness:
  "difference_list_to_velocities [(5, \<lparr>average = - 4\<rparr>), (2, \<lparr>average = 3\<rparr>)] 2 10
     = Inr [16, 30]"
  using velocities_are_magnitudes [of 10 "[(5, \<lparr>average = - 4\<rparr>), (2, \<lparr>average = 3\<rparr>)]" 2]
  by (simp add: velocity_magnitude_def)

text \<open>
  C6: a list that contains an entry whose frame interval is 0, or any entry at all when the
  frame rate is 0, makes the conversion fail with \<open>ZeroDivisionError\<close>; no list is returned.
\<close>

theorem velocities_zero_time_fails:
  "(frames, d) \<in> set diff_list \<Longrightarrow> fps = 0 \<or> frames = 0 \<Longrightarrow>
     difference_list_to_velocities diff_list scale fps = Inl ZeroDivisionError"
  using velocities_loop_zero [of frames d diff_list fps "[]" scale]
  by (simp add: difference_list_to_velocities_def)

theorem velocities_zero_time_fails_witness:
  "difference_list_to_velocities [(5, \<lparr>average = - 4\<rparr>), (0, \<lparr>average = 3\<rparr>)] 2 10
     = Inl ZeroDivisionError
   \<and> difference_list_to_velocities [(5, \<lparr>average = - 4\<rparr>)] 2 0 = Inl ZeroDivisionError"
  using velocities_zero_time_fails [of 0 "\<lparr>average = 3\<rparr>"
          "[(5, \<lparr>average = - 4\<rparr>), (0, \<lparr>average = 3\<rparr>)]" 10 2]
        velocities_zero_time_fails [of 5 "\<lparr>average = - 4\<rparr>" "[(5, \<lparr>average = - 4\<rparr>)]" 0 2]
  by simp

section \<open>Properties of the line intersection\<close>

lemma max_double_large: "1000000 \<le> max_double"
  by (simp add: max_double_def)

lemma to_float_small: "\<bar>x\<bar> \<le> 1000000 \<Longrightarrow> to_float x = Finite x"
  using max_double_large by (simp add: to_float_def)










text \<open>
  C4: for \<open>N = (0,0)-(0,10)\<close> and \<open>C = (-5,5)-(5,5)\<close>, \<open>cgt_intersection\<close> returns the
  intersection point \<open>(0,5)\<close> and no extension.
\<close>

theorem cgt_intersection_crossing:
  "cgt_intersection \<lparr>pt1 = \<lparr>xp = 0, yp = 0\<rparr>, pt2 = \<lparr>xp = 0, yp = 10\<rparr>\<rparr>
                    \<lparr>pt1 = \<lparr>xp = - 5, yp = 5\<rparr>, pt2 = \<lparr>xp = 5, yp = 5\<rparr>\<rparr>
     = Inr (\<lparr>xp = 0, yp = 5\<rparr>, None)"
  by (simp add: cgt_intersection_def isfinite_def float_value_def float_sub_def float_mul_def
      to_float_small py_truediv_def and_then_def Let_def qpointf_sub_def qpointf_add_def qpointf_mul_def)

section \<open>Properties of the rectangle helpers\<close>

text \<open>
  C7: \<open>make_positive_rect\<close> gives the same rectangle for the two orders of its corners; its
  width is \<open>|dx|\<close> and its height \<open>|dy|\<close>, both non-negative, and its top left corner is
  (the smaller \<open>x\<close>, the smaller \<open>y\<close>).
\<close>

theorem make_positive_rect_symmetric:
  "make_positive_rect c1 c2 = make_positive_rect c2 c1
   \<and> rect_w (make_positive_rect c1 c2) = \<bar>xp c2 - xp c1\<bar>
   \<and> rect_h (make_positive_rect c1 c2) = \<bar>yp c2 - yp c1\<bar>
   \<and> 0 \<le> rect_w (make_positive_rect c1 c2)
   \<and> 0 \<le> rect_h (make_positive_rect c1 c2)
   \<and> rect_xp (make_positive_rect c1 c2) = min (xp c1) (xp c2)
   \<and> rect_yp (make_positive_rect c1 c2) = min (yp c1) (yp c2)"
  by (simp add: make_positive_rect_def Let_def min.commute abs_minus_commute)

theorem make_positive_rect_symmetric_witness:
  "make_positive_rect \<lparr>xp = 3, yp = 1\<rparr> \<lparr>xp = 1, yp = 4\<rparr>
     = make_positive_rect \<lparr>xp = 1, yp = 4\<rparr> \<lparr>xp = 3, yp = 1\<rparr>
   \<and> rect_w (make_positive_rect \<lparr>xp = 3, yp = 1\<rparr> \<lparr>xp = 1, yp = 4\<rparr>) = 2
   \<and> rect_h (make_positive_rect \<lparr>xp = 3, yp = 1\<rparr> \<lparr>xp = 1, yp = 4\<rparr>) = 3
   \<and> rect_xp (make_positive_rect \<lparr>xp = 3, yp = 1\<rparr> \<lparr>xp = 1, yp = 4\<rparr>) = 1
   \<and> rect_yp (make_positive_rect \<lparr>xp = 3, yp = 1\<rparr> \<lparr>xp = 1, yp = 4\<rparr>) = 1"
proof -
  note sym = make_positive_rect_symmetric [of "\<lparr>xp = 3, yp = 1\<rparr>" "\<lparr>xp = 1, yp = 4\<rparr>"]
  have "rect_w (make_positive_rect \<lparr>xp = 3, yp = 1\<rparr> \<lparr>xp = 1, yp = 4\<rparr>) = 2
   \<and> rect_h (make_positive_rect \<lparr>xp = 3, yp = 1\<rparr> \<lparr>xp = 1, yp = 4\<rparr>) = 3
   \<and> rect_xp (make_positive_rect \<lparr>xp = 3, yp = 1\<rparr> \<lparr>xp = 1, yp = 4\<rparr>) = 1
   \<and> rect_yp (make_positive_rect \<lparr>xp = 3, yp = 1\<rparr> \<lparr>xp = 1, yp = 4\<rparr>) = 1"
    using sym [THEN conjunct2] by simp
  with sym [THEN conjunct1] show ?thesis by blast
qed


















section \<open>Properties of the conversions between field lists and items\<close>

lemma and_then_Inr: "and_then (Inr v) f = f v"
  by (simp add: and_then_def)

lemma py_index_in_range: "i < length xs \<Longrightarrow> py_index xs i = Inr (xs ! i)"
  by (simp add: py_index_def)

lemma point_round_trip_converted:
  assumes "7 \<le> length point"
    and "py_float float_of_str (point ! 1) = Inr centre_x"
    and "py_float float_of_str (point ! 2) = Inr centre_y"
    and "py_float float_of_str (point ! 3) = Inr position_x"
    and "py_float float_of_str (point ! 4) = Inr position_y"
    and "py_int int_of_str (point ! 5) = Inr frame"
    and "py_int int_of_str (point ! 6) = Inr region"
  shows "point_round_trip float_of_str int_of_str point pen
           = Inr [PyFloat centre_x, PyFloat centre_y, PyFloat position_x, PyFloat position_y,
                  PyInt frame, PyInt region]"
  using assms
  by (simp add: point_round_trip_def list_to_g_point_def g_point_to_tuple_def
      py_index_in_range and_then_Inr Let_def setData_def QGraphicsPathItem_new_def)

lemma line_round_trip_converted:
  assumes "9 \<le> length line"
    and "py_float float_of_str (line ! 1) = Inr ax1"
    and "py_float float_of_str (line ! 2) = Inr ay1"
    and "py_float float_of_str (line ! 3) = Inr ax2"
    and "py_float float_of_str (line ! 4) = Inr ay2"
    and "py_float float_of_str (line ! 5) = Inr position_x"
    and "py_float float_of_str (line ! 6) = Inr position_y"
    and "py_int int_of_str (line ! 7) = Inr frame"
    and "py_int int_of_str (line ! 8) = Inr region"
  shows "line_round_trip float_of_str int_of_str line pen
           = Inr [PyFloat ax1, PyFloat ay1, PyFloat ax2, PyFloat ay2,
                  PyFloat position_x, PyFloat position_y, PyInt frame, PyInt region]"
  using assms
  by (simp add: line_round_trip_def list_to_g_line_def g_line_to_tuple_def
      py_index_in_range and_then_Inr Let_def setData_def QGraphicsLineItem_new_def)

text \<open>
  C1, as the code has it: for a point field list \<open>[id, cx, cy, px, py, frame, region]\<close> with
  float coordinates and integer frame and region, \<open>list_to_g_point\<close> followed by
  \<open>g_point_to_tuple\<close> returns the six values \<open>[cx, cy, px, py, frame, region]\<close>, each exactly
  the value given and in the same order, without the leading identifier; likewise a line
  field list of nine fields comes back as its eight values after the identifier.
\<close>

theorem round_trip_without_id:
  "point_round_trip float_of_str int_of_str
      [ident, PyFloat cx, PyFloat cy, PyFloat px, PyFloat py, PyInt frame, PyInt region] pen
     = Inr [PyFloat cx, PyFloat cy, PyFloat px, PyFloat py, PyInt frame, PyInt region]
   \<and> line_round_trip float_of_str int_of_str
      [ident, PyFloat ax1, PyFloat ay1, PyFloat ax2, PyFloat ay2, PyFloat px, PyFloat py,
       PyInt frame, PyInt region] pen
     = Inr [PyFloat ax1, PyFloat ay1, PyFloat ax2, PyFloat ay2, PyFloat px, PyFloat py,
            PyInt frame, PyInt region]"
proof
  show "point_round_trip float_of_str int_of_str
      [ident, PyFloat cx, PyFloat cy, PyFloat px, PyFloat py, PyInt frame, PyInt region] pen
     = Inr [PyFloat cx, PyFloat cy, PyFloat px, PyFloat py, PyInt frame, PyInt region]"
    by (rule point_round_trip_converted) (simp_all add: py_float_def py_int_def)
  show "line_round_trip float_of_str int_of_str
      [ident, PyFloat ax1, PyFloat ay1, PyFloat ax2, PyFloat ay2, PyFloat px, PyFloat py,
       PyInt frame, PyInt region] pen
     = Inr [PyFloat ax1, PyFloat ay1, PyFloat ax2, PyFloat ay2, PyFloat px, PyFloat py,
            PyInt frame, PyInt region]"
    by (rule line_round_trip_converted) (simp_all add: py_float_def py_int_def)
qed

text \<open>
  The round trip of a valid list is not the list itself: it has one field less.
\<close>

theorem round_trip_counterexample:
  "point_round_trip (\<lambda>s. None) (\<lambda>s. None)
      [PyInt 0 :: unit pyval, PyFloat (3 / 2), PyFloat (5 / 2), PyFloat 3, PyFloat 4,
       PyInt 7, PyInt 2] ()
     = Inr [PyFloat (3 / 2), PyFloat (5 / 2), PyFloat 3, PyFloat 4, PyInt 7, PyInt 2]
   \<and> point_round_trip (\<lambda>s. None) (\<lambda>s. None)
      [PyInt 0 :: unit pyval, PyFloat (3 / 2), PyFloat (5 / 2), PyFloat 3, PyFloat 4,
       PyInt 7, PyInt 2] ()
     \<noteq> Inr [PyInt 0, PyFloat (3 / 2), PyFloat (5 / 2), PyFloat 3, PyFloat 4, PyInt 7, PyInt 2]
   \<and> line_round_trip (\<lambda>s. None) (\<lambda>s. None)
      [PyInt 0 :: unit pyval, PyFloat (3 / 2), PyFloat (5 / 2), PyFloat 3, PyFloat 4,
       PyFloat 1, PyFloat 2, PyInt 7, PyInt 2] ()
     \<noteq> Inr [PyInt 0, PyFloat (3 / 2), PyFloat (5 / 2), PyFloat 3, PyFloat 4,
            PyFloat 1, PyFloat 2, PyInt 7, PyInt 2]"
  by (simp add: point_round_trip_def list_to_g_point_def g_point_to_tuple_def
      line_round_trip_def list_to_g_line_def g_line_to_tuple_def py_float_def py_int_def
      py_index_def and_then_def Let_def setData_def QGraphicsPathItem_new_def
      QGraphicsLineItem_new_def)

theorem round_trip_without_id_witness:
  "point_round_trip (\<lambda>s. None) (\<lambda>s. None)
      [PyStr ''p1'' :: unit pyval, PyFloat (3 / 2), PyFloat (5 / 2), PyFloat 3, PyFloat 4,
       PyInt 7, PyInt 2] ()
     = Inr [PyFloat (3 / 2), PyFloat (5 / 2), PyFloat 3, PyFloat 4, PyInt 7, PyInt 2]"
  using round_trip_without_id
     [of "\<lambda>s. None" "\<lambda>s. None" "PyStr ''p1'' :: unit pyval" "3 / 2" "5 / 2" 3 4 7 2 "()"]
  by simp

section \<open>Properties of the arrow head\<close>













section \<open>Properties of the project's changed flag\<close>

lemma has_been_changed_key:
  "has_been_changed results_changed self = Inr b \<Longrightarrow> ''results'' \<in> dom (items self)"
  by (auto simp add: has_been_changed_def getitem_def split: option.splits)

lemma has_been_changed_flag_set:
  assumes "''results'' \<in> dom (items self)" and "changed self"
  shows "has_been_changed results_changed self = Inr True"
proof -
  from assms(1) obtain v where "items self ''results'' = Some v" by auto
  with assms(2) show ?thesis
    by (cases v) (simp_all add: has_been_changed_def getitem_def)
qed

lemma setitem_changed: "changed (setitem self item v)"
  by (simp add: setitem_def)

lemma setitem_key:
  "''results'' \<in> dom (items self) \<Longrightarrow> ''results'' \<in> dom (items (setitem self item v))"
  by (simp add: setitem_def)

lemma has_been_changed_setitem:
  "''results'' \<in> dom (items self) \<Longrightarrow>
     has_been_changed results_changed (setitem self item v) = Inr True"
  by (rule has_been_changed_flag_set [OF setitem_key setitem_changed])

lemma init_key: "''results'' \<in> dom (items (CGTProject_init ()))"
  by (simp add: CGTProject_init_def init_assignments_def setitem_def)

lemma init_changed: "changed (CGTProject_init ())"
  by (simp add: CGTProject_init_def init_assignments_def setitem_def)

lemma init_new_project_key:
  "''results'' \<in> dom (items self) \<Longrightarrow>
     ''results'' \<in> dom (items (init_new_project timestamp hostname_and_ip user self))"
  by (simp add: init_new_project_def Let_def setitem_def)

lemma init_new_project_changed:
  "changed (init_new_project timestamp hostname_and_ip user self)"
  by (simp add: init_new_project_def Let_def setitem_def)

lemma ensure_numeric_cases:
  "fst (ensure_numeric float_of_str self) = self
   \<or> (\<exists>self' item v. fst (ensure_numeric float_of_str self) = setitem self' item v
         \<and> dom (items self) \<subseteq> dom (items self'))"
proof (cases "and_then (getitem self ''resolution'') (py_float float_of_str)")
  case (Inl e)
  then show ?thesis by (simp add: ensure_numeric_def)
next
  case (Inr resolution)
  let ?self1 = "setitem self ''resolution'' (PyFloat resolution)"
  show ?thesis
  proof (cases "and_then (getitem ?self1 ''frame_rate'') (py_float float_of_str)")
    case (Inl e)
    with Inr have "fst (ensure_numeric float_of_str self) = ?self1"
      by (simp add: ensure_numeric_def Let_def)
    then show ?thesis by blast
  next
    case (Inr frame_rate)
    with \<open>and_then (getitem self ''resolution'') (py_float float_of_str) = Inr resolution\<close>
    have "fst (ensure_numeric float_of_str self)
            = setitem ?self1 ''frame_rate'' (PyFloat frame_rate)"
      by (simp add: ensure_numeric_def Let_def)
    moreover have "dom (items self) \<subseteq> dom (items ?self1)"
      by (auto simp add: setitem_def)
    ultimately show ?thesis by blast
  qed
qed

lemma call_keeps_changed:
  assumes "m \<noteq> ResetChanged" and "has_been_changed results_changed self = Inr True"
  shows "has_been_changed results_changed (fst (call float_of_str results_reset m self))
           = Inr True"
proof -
  have key: "''results'' \<in> dom (items self)"
    by (rule has_been_changed_key [OF assms(2)])
  show ?thesis
  proof (cases m)
    case (SetItem item v)
    then show ?thesis by (simp add: has_been_changed_setitem [OF key])
  next
    case SetChanged
    have "has_been_changed results_changed (set_changed self) = Inr True"
      by (rule has_been_changed_flag_set) (use key in \<open>simp_all add: set_changed_def\<close>)
    with SetChanged show ?thesis by simp
  next
    case ResetChanged
    with assms(1) show ?thesis by simp
  next
    case (InitNewProject timestamp hostname_and_ip user)
    have "has_been_changed results_changed
            (init_new_project timestamp hostname_and_ip user self) = Inr True"
      by (rule has_been_changed_flag_set
            [OF init_new_project_key [OF key] init_new_project_changed])
    with InitNewProject show ?thesis by simp
  next
    case EnsureNumeric
    from ensure_numeric_cases [of float_of_str self]
    have "has_been_changed results_changed (fst (ensure_numeric float_of_str self)) = Inr True"
    proof
      assume "fst (ensure_numeric float_of_str self) = self"
      with assms(2) show ?thesis by simp
    next
      assume "\<exists>self' item v. fst (ensure_numeric float_of_str self) = setitem self' item v
                \<and> dom (items self) \<subseteq> dom (items self')"
      then obtain self' item v
        where eq: "fst (ensure_numeric float_of_str self) = setitem self' item v"
          and sub: "dom (items self) \<subseteq> dom (items self')"
        by blast
      from key sub have "''results'' \<in> dom (items self')" by blast
      then show ?thesis
        by (simp only: eq has_been_changed_setitem)
    qed
    with EnsureNumeric show ?thesis by simp
  qed
qed

lemma call_keeps_key:
  assumes "''results'' \<in> dom (items self)"
  shows "''results'' \<in> dom (items (fst (call float_of_str results_reset m self)))"
proof (cases m)
  case (SetItem item v)
  with assms show ?thesis by (simp add: setitem_def)
next
  case SetChanged
  with assms show ?thesis by (simp add: set_changed_def)
next
  case ResetChanged
  with assms show ?thesis
    by (auto simp add: reset_changed_def getitem_def Let_def split: option.splits pyval.splits)
next
  case (InitNewProject timestamp hostname_and_ip user)
  with assms show ?thesis by (simp add: init_new_project_key)
next
  case EnsureNumeric
  from ensure_numeric_cases [of float_of_str self] assms
  have "''results'' \<in> dom (items (fst (ensure_numeric float_of_str self)))"
    by (auto simp add: setitem_def)
  with EnsureNumeric show ?thesis by simp
qed

lemma has_been_changed_after_reset:
  "has_been_changed results_changed (fst (reset_changed results_reset self)) = Inr False
     \<longleftrightarrow> items self ''results'' = Some PyNone
          \<or> (\<exists>r. items self ''results'' = Some (PyObject r)
                  \<and> \<not> results_changed (results_reset r))"
proof (cases "items self ''results''")
  case None
  then show ?thesis
    by (simp add: reset_changed_def has_been_changed_def getitem_def Let_def)
next
  case (Some v)
  then show ?thesis
    by (cases v)
       (simp_all add: reset_changed_def has_been_changed_def getitem_def Let_def)
qed

text \<open>
  C10: on a project that has its \<open>results\<close> key (as every project has from \<open>__init__\<close> on),
  every \<open>__setitem__\<close> leaves \<open>has_been_changed()\<close> returning true; a freshly constructed
  project reports true; no method other than \<open>reset_changed\<close> turns a true report into
  anything else; and after \<open>reset_changed\<close> the report is false exactly when the stored
  results are \<open>None\<close> or report unchanged themselves.
\<close>

theorem changed_flag_protocol:
  "(''results'' \<in> dom (items self) \<longrightarrow>
      has_been_changed results_changed (setitem self item v) = Inr True)
   \<and> has_been_changed results_changed (CGTProject_init ()) = Inr True
   \<and> ''results'' \<in> dom (items (CGTProject_init ()))
   \<and> (''results'' \<in> dom (items self) \<longrightarrow>
        ''results'' \<in> dom (items (fst (call float_of_str results_reset m self))))
   \<and> (m \<noteq> ResetChanged \<and> has_been_changed results_changed self = Inr True \<longrightarrow>
        has_been_changed results_changed (fst (call float_of_str results_reset m self))
          = Inr True)
   \<and> (has_been_changed results_changed (fst (reset_changed results_reset self)) = Inr False
        \<longleftrightarrow> items self ''results'' = Some PyNone
             \<or> (\<exists>r. items self ''results'' = Some (PyObject r)
                     \<and> \<not> results_changed (results_reset r)))"
proof (intro conjI impI)
  assume "''results'' \<in> dom (items self)"
  then show "has_been_changed results_changed (setitem self item v) = Inr True"
    by (rule has_been_changed_setitem)
next
  show "has_been_changed results_changed (CGTProject_init ()) = Inr True"
    by (rule has_been_changed_flag_set [OF init_key init_changed])
next
  show "''results'' \<in> dom (items (CGTProject_init ()))"
    by (rule init_key)
next
  assume "''results'' \<in> dom (items self)"
  then show "''results'' \<in> dom (items (fst (call float_of_str results_reset m self)))"
    by (rule call_keeps_key)
next
  assume "m \<noteq> ResetChanged \<and> has_been_changed results_changed self = Inr True"
  then show "has_been_changed results_changed (fst (call float_of_str results_reset m self))
          = Inr True"
    by (simp add: call_keeps_changed)
next
  show "has_been_changed results_changed (fst (reset_changed results_reset self)) = Inr False
        \<longleftrightarrow> items self ''results'' = Some PyNone
             \<or> (\<exists>r. items self ''results'' = Some (PyObject r)
                     \<and> \<not> results_changed (results_reset r))"
    by (rule has_been_changed_after_reset)
qed

theorem changed_flag_protocol_witness:
  "has_been_changed (\<lambda>r. r) (fst (reset_changed (\<lambda>r. False) (CGTProject_init ()))) = Inr False
   \<and> has_been_changed (\<lambda>r. r)
       (setitem (fst (reset_changed (\<lambda>r. False) (CGTProject_init ()))) ''notes'' (PyStr ''x''))
       = Inr True
   \<and> has_been_changed (\<lambda>r. r)
       (fst (call (\<lambda>s. None) (\<lambda>r. False) EnsureNumeric
          (setitem (fst (reset_changed (\<lambda>r. False) (CGTProject_init ()))) ''notes''
             (PyStr ''x''))))
       = Inr True"
proof -
  let ?fresh = "CGTProject_init () :: bool CGTProject"
  let ?saved = "fst (reset_changed (\<lambda>r. False) ?fresh)"
  let ?edited = "setitem ?saved ''notes'' (PyStr ''x'')"
  have none: "items ?fresh ''results'' = Some PyNone"
    by (simp add: CGTProject_init_def init_assignments_def setitem_def)
  have key: "''results'' \<in> dom (items ?saved)"
    using none by (auto simp add: reset_changed_def getitem_def Let_def)
  have saved: "has_been_changed (\<lambda>r. r) ?saved = Inr False"
    using none
      changed_flag_protocol
        [of ?fresh "\<lambda>r. r" "''notes''" PyNone "\<lambda>s. None" "\<lambda>r. False" SetChanged]
    by blast
  have edited: "has_been_changed (\<lambda>r. r) ?edited = Inr True"
    using key
      changed_flag_protocol
        [of ?saved "\<lambda>r. r" "''notes''" "PyStr ''x''" "\<lambda>s. None" "\<lambda>r. False" SetChanged]
    by blast
  have distinct: "EnsureNumeric \<noteq> (ResetChanged :: bool method_call)"
    by simp
  have "has_been_changed (\<lambda>r. r) (fst (call (\<lambda>s. None) (\<lambda>r. False) EnsureNumeric ?edited))
          = Inr True"
    using edited distinct
      changed_flag_protocol
        [of ?edited "\<lambda>r. r" "''notes''" PyNone "\<lambda>s. None" "\<lambda>r. False" EnsureNumeric]
    by blast
  with saved edited show ?thesis by blast
qed

end
